theory Spec2Isabelle
  imports Complex_Main "HOL-Library.Word"
begin

section \<open>Height-field tiles of \<^verbatim>\<open>fab/image.py\<close>\<close>

text \<open>
  The class \<^verbatim>\<open>Image\<close> wraps a two-dimensional numpy array of unsigned 16-bit samples
  together with its pixel size and six physical bounds. Python objects are mutable and
  shared by reference, and a numpy slice is a window onto the memory of the array it was
  taken from, so the model has an explicit store: a list of tile objects and a list of
  sample buffers, both addressed by their position; a new object or buffer is appended.
  Physical bounds and scale factors are Python floats; they are modelled as exact
  rationals, and \<^verbatim>\<open>/\<close> is true division.
\<close>

type_synonym u16 = "16 word"
type_synonym ref = nat

datatype error = TypeError | ZeroDivisionError | ValueError | IndexError

subsection \<open>Results that may raise\<close>

definition ebind :: "error + 'a \<Rightarrow> ('a \<Rightarrow> error + 'b) \<Rightarrow> error + 'b" where
  "ebind m f = (case m of Inl e \<Rightarrow> Inl e | Inr x \<Rightarrow> f x)"

subsection \<open>Python arithmetic on bounds\<close>

text \<open>A bound that is still \<^verbatim>\<open>None\<close> makes every arithmetic operation raise TypeError.\<close>

definition py_sub :: "rat option \<Rightarrow> rat option \<Rightarrow> error + rat" where
  "py_sub a b = (case a of None \<Rightarrow> Inl TypeError
                 | Some x \<Rightarrow> (case b of None \<Rightarrow> Inl TypeError | Some y \<Rightarrow> Inr (x - y)))"

definition py_div :: "rat \<Rightarrow> rat \<Rightarrow> error + rat" where
  "py_div a b = (if b = 0 then Inl ZeroDivisionError else Inr (a / b))"

definition py_gt :: "rat option \<Rightarrow> rat option \<Rightarrow> error + bool" where
  "py_gt a b = (case a of None \<Rightarrow> Inl TypeError
                | Some x \<Rightarrow> (case b of None \<Rightarrow> Inl TypeError | Some y \<Rightarrow> Inr (x > y)))"

definition py_lt :: "rat option \<Rightarrow> rat option \<Rightarrow> error + bool" where
  "py_lt a b = (case a of None \<Rightarrow> Inl TypeError
                | Some x \<Rightarrow> (case b of None \<Rightarrow> Inl TypeError | Some y \<Rightarrow> Inr (x < y)))"

text \<open>\<^verbatim>\<open>int(x)\<close> truncates towards zero.\<close>

definition py_int :: "rat \<Rightarrow> int" where
  "py_int x = (if 0 \<le> x then \<lfloor>x\<rfloor> else \<lceil>x\<rceil>)"

text \<open>\<^verbatim>\<open>round(x)\<close> rounds to the nearest integer, a tie to the even one.\<close>

definition py_round :: "rat \<Rightarrow> int" where
  "py_round x =
     (let f = \<lfloor>x\<rfloor>; d = x - of_int f
      in if d < 1 / 2 then f else if 1 / 2 < d then f + 1 else if even f then f else f + 1)"

text \<open>
  The index expression shared by the four trims and the two placement offsets:
  \<^verbatim>\<open>int(n * (a - b) / (c - d))\<close>, evaluated left to right.
\<close>

definition frac_index ::
  "nat \<Rightarrow> rat option \<Rightarrow> rat option \<Rightarrow> rat option \<Rightarrow> rat option \<Rightarrow> error + int" where
  "frac_index n a b c d =
     ebind (py_sub a b) (\<lambda>p.
     ebind (py_sub c d) (\<lambda>q.
     ebind (py_div (of_nat n * p) q) (\<lambda>x. Inr (py_int x))))"

subsection \<open>Arrays and the store\<close>

text \<open>
  A numpy array object is a window onto a buffer: the buffer it looks into, the window's
  origin there and its shape. A buffer maps a row and a column to a sample.
\<close>

record ndarray =
  buf :: ref
  roff :: nat
  coff :: nat
  nrows :: nat
  ncols :: nat

record image =
  array :: ndarray
  width :: nat
  height :: nat
  xmin :: "rat option"
  ymin :: "rat option"
  zmin :: "rat option"
  xmax :: "rat option"
  ymax :: "rat option"
  zmax :: "rat option"

record heap =
  images :: "image list"
  buffers :: "(nat \<Rightarrow> nat \<Rightarrow> u16) list"

definition sample :: "heap \<Rightarrow> ndarray \<Rightarrow> nat \<Rightarrow> nat \<Rightarrow> u16" where
  "sample st a j i = (buffers st ! buf a) (roff a + j) (coff a + i)"

text \<open>The samples of an array, row by row.\<close>

definition grid_of :: "heap \<Rightarrow> ndarray \<Rightarrow> u16 list list" where
  "grid_of st a = map (\<lambda>j. map (\<lambda>i. sample st a j i) [0..<ncols a]) [0..<nrows a]"

text \<open>\<^verbatim>\<open>np.zeros((h, w), dtype=np.uint16)\<close>: a new buffer, all zero.\<close>

definition np_zeros :: "nat \<Rightarrow> nat \<Rightarrow> heap \<Rightarrow> ndarray \<times> heap" where
  "np_zeros h w st =
     (\<lparr>buf = length (buffers st), roff = 0, coff = 0, nrows = h, ncols = w\<rparr>,
      st\<lparr>buffers := buffers st @ [\<lambda>r c. 0]\<rparr>)"

text \<open>
  One axis of a slice \<^verbatim>\<open>[lo:hi]\<close> of an axis of length \<open>n\<close>: a negative index counts
  from the end, both ends are clamped to the axis, and the result is the offset of the
  first element kept and the number of elements kept.
\<close>

definition slice_index :: "nat \<Rightarrow> int \<Rightarrow> int" where
  "slice_index n i = (if i < 0 then max 0 (int n + i) else min (int n) i)"

definition slice_axis :: "nat \<Rightarrow> int option \<Rightarrow> int option \<Rightarrow> nat \<times> nat" where
  "slice_axis n lo hi =
     (let start = (case lo of None \<Rightarrow> 0 | Some i \<Rightarrow> slice_index n i);
          stop = (case hi of None \<Rightarrow> int n | Some i \<Rightarrow> slice_index n i)
      in (nat start, nat (stop - start)))"

text \<open>\<^verbatim>\<open>a[r0:r1, c0:c1]\<close>: a window onto the same buffer.\<close>

definition slice2 ::
  "ndarray \<Rightarrow> int option \<Rightarrow> int option \<Rightarrow> int option \<Rightarrow> int option \<Rightarrow> ndarray" where
  "slice2 a r0 r1 c0 c1 =
     (let ro = fst (slice_axis (nrows a) r0 r1); rn = snd (slice_axis (nrows a) r0 r1);
          co = fst (slice_axis (ncols a) c0 c1); cn = snd (slice_axis (ncols a) c0 c1)
      in a\<lparr>roff := roff a + ro, coff := coff a + co, nrows := rn, ncols := cn\<rparr>)"

text \<open>Assigning attributes of the tile object \<open>r\<close>.\<close>

definition set_image :: "ref \<Rightarrow> (image \<Rightarrow> image) \<Rightarrow> heap \<Rightarrow> heap" where
  "set_image r f st = st\<lparr>images := (images st)[r := f (images st ! r)]\<rparr>"

subsection \<open>Construction and copy\<close>

text \<open>
  \<^verbatim>\<open>Image.__init__(w, h)\<close>: \<^verbatim>\<open>np.zeros\<close> raises ValueError on a negative dimension.
\<close>

definition Image_init :: "int \<Rightarrow> int \<Rightarrow> heap \<Rightarrow> error + (ref \<times> heap)" where
  "Image_init w h st =
     (if w < 0 \<or> h < 0 then Inl ValueError
      else let a = fst (np_zeros (nat h) (nat w) st);
               st1 = snd (np_zeros (nat h) (nat w) st)
           in Inr (length (images st1),
                   st1\<lparr>images := images st1 @
                     [\<lparr>array = a, width = nat w, height = nat h,
                       xmin = None, ymin = None, zmin = None,
                       xmax = None, ymax = None, zmax = None\<rparr>]\<rparr>))"

text \<open>
  Modelled from the spec: the grid descriptor \<^verbatim>\<open>Region\<close> is declared outside the
  file. It supplies the cell counts \<open>ni\<close>, \<open>nj\<close>, \<open>nk\<close> and the ordered coordinate
  sequences \<open>X\<close>, \<open>Y\<close>, \<open>Z\<close>; the constructor reads the counts and the first and
  last coordinate of each axis. Reading past the end of a sequence is an error.
\<close>

record region =
  ni :: nat
  nj :: nat
  nk :: nat
  X :: "rat list"
  Y :: "rat list"
  Z :: "rat list"

definition coord :: "rat list \<Rightarrow> nat \<Rightarrow> error + rat" where
  "coord xs i = (if i < length xs then Inr (xs ! i) else Inl IndexError)"

definition from_region :: "region \<Rightarrow> rat \<Rightarrow> heap \<Rightarrow> error + (ref \<times> heap)" where
  "from_region rg mm_per_unit st =
     ebind (Image_init (int (ni rg)) (int (nj rg)) st) (\<lambda>(i, st1).
     ebind (coord (X rg) 0) (\<lambda>x0.
     ebind (coord (X rg) (ni rg)) (\<lambda>x1.
     ebind (coord (Y rg) 0) (\<lambda>y0.
     ebind (coord (Y rg) (nj rg)) (\<lambda>y1.
     ebind (coord (Z rg) 0) (\<lambda>z0.
     ebind (coord (Z rg) (nk rg)) (\<lambda>z1.
       Inr (i, set_image i (\<lambda>m. m\<lparr>xmin := Some (x0 * mm_per_unit),
                                     xmax := Some (x1 * mm_per_unit),
                                     ymin := Some (y0 * mm_per_unit),
                                     ymax := Some (y1 * mm_per_unit),
                                     zmin := Some (z0 * mm_per_unit),
                                     zmax := Some (z1 * mm_per_unit)\<rparr>) st1))))))))"

text \<open>
  \<^verbatim>\<open>Image.copy\<close>: a new tile object (with a zero grid of its own, dropped at once)
  whose \<^verbatim>\<open>array\<close> is then the very array of \<open>self\<close>, and whose bounds are
  those of \<open>self\<close>.
\<close>

definition copy :: "ref \<Rightarrow> heap \<Rightarrow> error + (ref \<times> heap)" where
  "copy self st =
     ebind (Image_init (int (width (images st ! self))) (int (height (images st ! self))) st)
       (\<lambda>(i, st1).
          Inr (i, set_image i (\<lambda>m. m\<lparr>array := array (images st1 ! self),
                                        xmin := xmin (images st1 ! self),
                                        ymin := ymin (images st1 ! self),
                                        zmin := zmin (images st1 ! self),
                                        xmax := xmax (images st1 ! self),
                                        ymax := ymax (images st1 ! self),
                                        zmax := zmax (images st1 ! self)\<rparr>) st1))"

subsection \<open>Export\<close>

text \<open>
  \<^verbatim>\<open>Image.pixels\<close> hands row pointers to native code; its only effect on the tile is
  that a grid which is not C-contiguous is replaced by a contiguous copy
  (\<^verbatim>\<open>np.ascontiguousarray\<close>). Whether the grid is contiguous is a matter of memory
  layout and is an input of the model. \<^verbatim>\<open>Image.save\<close> packs the six bounds as C floats
  (TypeError on \<^verbatim>\<open>None\<close>) and calls \<^verbatim>\<open>pixels\<close>.
\<close>

definition np_ascontiguousarray :: "ndarray \<Rightarrow> heap \<Rightarrow> ndarray \<times> heap" where
  "np_ascontiguousarray a st =
     (\<lparr>buf = length (buffers st), roff = 0, coff = 0, nrows = nrows a, ncols = ncols a\<rparr>,
      st\<lparr>buffers := buffers st @ [\<lambda>r c. sample st a r c]\<rparr>)"

definition pixels :: "bool \<Rightarrow> ref \<Rightarrow> heap \<Rightarrow> heap" where
  "pixels contiguous self st =
     (if contiguous then st
      else let a = fst (np_ascontiguousarray (array (images st ! self)) st);
               st1 = snd (np_ascontiguousarray (array (images st ! self)) st)
           in set_image self (\<lambda>m. m\<lparr>array := a\<rparr>) st1)"

definition save :: "bool \<Rightarrow> ref \<Rightarrow> heap \<Rightarrow> error + heap" where
  "save contiguous self st =
     (let m = images st ! self
      in if xmin m = None \<or> ymin m = None \<or> zmin m = None \<or>
            xmax m = None \<or> ymax m = None \<or> zmax m = None
         then Inl TypeError else Inr (pixels contiguous self st))"

subsection \<open>Compositing: scale factors\<close>

text \<open>
  Lines 77 to 81: the quotient of the two height ranges; the handler of ZeroDivisionError
  makes it 1.
\<close>

definition z_scale :: "image \<Rightarrow> image \<Rightarrow> error + rat" where
  "z_scale s t =
     ebind (py_sub (zmax s) (zmin t)) (\<lambda>a.
     ebind (py_sub (zmax t) (zmin t)) (\<lambda>b.
       case py_div a b of
         Inl e \<Rightarrow> (if e = ZeroDivisionError then Inr 1 else Inl e)
       | Inr q \<Rightarrow> Inr q))"

text \<open>Pixels per physical unit along one axis: \<^verbatim>\<open>n / (hi - lo)\<close>.\<close>

definition density :: "nat \<Rightarrow> rat option \<Rightarrow> rat option \<Rightarrow> error + rat" where
  "density n hi lo = ebind (py_sub hi lo) (\<lambda>d. py_div (of_nat n) d)"

text \<open>Lines 83 to 87: the pair (row factor, column factor).\<close>

definition pixel_scale :: "image \<Rightarrow> image \<Rightarrow> error + (rat \<times> rat)" where
  "pixel_scale s t =
     ebind (density (height t) (ymax t) (ymin t)) (\<lambda>ty.
     ebind (density (height s) (ymax s) (ymin s)) (\<lambda>sy.
     ebind (py_div ty sy) (\<lambda>r.
     ebind (density (width t) (xmax t) (xmin t)) (\<lambda>tx.
     ebind (density (width s) (xmax s) (xmin s)) (\<lambda>sx.
     ebind (py_div tx sx) (\<lambda>c. Inr (r, c)))))))"

subsection \<open>Compositing: resampling\<close>

text \<open>
  Modelled from the spec: the conversion of a rescaled sample to the unsigned 16-bit
  output type happens inside the library call. The specification leaves rounding or
  truncation open and says that an overflow wraps around; the model truncates.
\<close>

definition to_uint16 :: "rat \<Rightarrow> u16" where
  "to_uint16 x = word_of_int (py_int x)"

text \<open>
  Modelled from the spec: the source index that nearest-neighbour sampling reads for
  output index \<open>j\<close> on an axis of length \<open>n\<close> zoomed by \<open>z\<close>, that is \<open>\<lfloor>j / z\<rfloor>\<close>
  clamped to the axis.
\<close>

definition zoom_index :: "nat \<Rightarrow> rat \<Rightarrow> nat \<Rightarrow> nat" where
  "zoom_index n z j = nat (max 0 (min (int n - 1) \<lfloor>of_nat j / z\<rfloor>))"

text \<open>
  Modelled from the spec: \<^verbatim>\<open>scipy.ndimage.interpolation.zoom\<close> with \<^verbatim>\<open>order=0\<close> and
  \<^verbatim>\<open>output=np.uint16\<close> is a library function outside the repository. Following the
  specification of the resampler, output cell \<open>(j, i)\<close> takes the input cell
  \<open>(\<lfloor>j / rowScale\<rfloor>, \<lfloor>i / colScale\<rfloor>)\<close> and converts it. The specification gives no
  formula for the output shape; each dimension is the input dimension times its factor,
  rounded to the nearest integer, and a negative dimension is an error.
\<close>

definition zoom ::
  "nat \<Rightarrow> nat \<Rightarrow> (nat \<Rightarrow> nat \<Rightarrow> rat) \<Rightarrow> rat \<times> rat
     \<Rightarrow> error + (nat \<times> nat \<times> (nat \<Rightarrow> nat \<Rightarrow> u16))" where
  "zoom h w g z =
     (let oh = py_round (of_nat h * fst z); ow = py_round (of_nat w * snd z)
      in if oh < 0 \<or> ow < 0 then Inl ValueError
         else Inr (nat oh, nat ow,
                   \<lambda>j i. to_uint16 (g (zoom_index h (fst z) j) (zoom_index w (snd z) i))))"

text \<open>
  Line 94, \<^verbatim>\<open>source.array[::-1, :] * z_scale\<close>: row \<open>j\<close> of the product is row
  \<open>nrows - 1 - j\<close> of the grid, every sample multiplied by the z-scale.
\<close>

definition flip_scale :: "heap \<Rightarrow> ndarray \<Rightarrow> rat \<Rightarrow> nat \<Rightarrow> nat \<Rightarrow> rat" where
  "flip_scale st a zs j i = of_nat (unat (sample st a (nrows a - 1 - j) i)) * zs"

text \<open>
  Lines 93 to 98, on the copy \<open>c\<close>: the product is zoomed by the two pixel-density
  ratios into a new buffer, the new array is assigned to the copy, and the copy's height
  and width are taken from the new shape.
\<close>

definition resample :: "ref \<Rightarrow> rat \<Rightarrow> rat \<times> rat \<Rightarrow> heap \<Rightarrow> error + heap" where
  "resample c zs ps st =
     (let a = array (images st ! c)
      in ebind (zoom (nrows a) (ncols a) (flip_scale st a zs) ps) (\<lambda>(oh, ow, g).
           Inr (set_image c
                  (\<lambda>m. m\<lparr>array := \<lparr>buf = length (buffers st), roff = 0, coff = 0,
                                      nrows = oh, ncols = ow\<rparr>,
                          height := oh, width := ow\<rparr>)
                  (st\<lparr>buffers := buffers st @ [g]\<rparr>))))"

subsection \<open>Compositing: trimming\<close>

text \<open>
  Lines 101 to 123. Each trim tests one bound of the target \<open>t\<close> against the copy
  \<open>s\<close>, computes an index from \<^verbatim>\<open>source.width\<close>, moves the bound and slices the
  array. The width and height attributes are not assigned here.
\<close>

definition trim_xmin :: "image \<Rightarrow> image \<Rightarrow> error + image" where
  "trim_xmin t s =
     ebind (py_gt (xmin t) (xmin s)) (\<lambda>b.
       if b then
         ebind (frac_index (width s) (xmin t) (xmin s) (xmax s) (xmin s)) (\<lambda>imin.
           Inr (s\<lparr>xmin := xmin t, array := slice2 (array s) None None (Some imin) None\<rparr>))
       else Inr s)"

definition trim_xmax :: "image \<Rightarrow> image \<Rightarrow> error + image" where
  "trim_xmax t s =
     ebind (py_lt (xmax t) (xmax s)) (\<lambda>b.
       if b then
         ebind (frac_index (width s) (xmax t) (xmax s) (xmax s) (xmin s)) (\<lambda>imax.
           Inr (s\<lparr>xmax := xmax t, array := slice2 (array s) None None None (Some imax)\<rparr>))
       else Inr s)"

definition trim_ymin :: "image \<Rightarrow> image \<Rightarrow> error + image" where
  "trim_ymin t s =
     ebind (py_gt (ymin t) (ymin s)) (\<lambda>b.
       if b then
         ebind (frac_index (width s) (ymin t) (ymin s) (ymax s) (ymin s)) (\<lambda>jmin.
           Inr (s\<lparr>ymin := ymin t, array := slice2 (array s) (Some jmin) None None None\<rparr>))
       else Inr s)"

definition trim_ymax :: "image \<Rightarrow> image \<Rightarrow> error + image" where
  "trim_ymax t s =
     ebind (py_lt (ymax t) (ymax s)) (\<lambda>b.
       if b then
         ebind (frac_index (width s) (ymax t) (ymax s) (ymax s) (ymin s)) (\<lambda>jmax.
           Inr (s\<lparr>ymax := ymax t, array := slice2 (array s) None (Some jmax) None None\<rparr>))
       else Inr s)"

text \<open>Line 126 (and line 98): \<^verbatim>\<open>source.height, source.width = source.array.shape\<close>.\<close>

definition refresh_shape :: "image \<Rightarrow> image" where
  "refresh_shape s = s\<lparr>height := nrows (array s), width := ncols (array s)\<rparr>"

definition trim :: "image \<Rightarrow> image \<Rightarrow> error + image" where
  "trim t s =
     ebind (trim_xmin t s) (\<lambda>s1.
     ebind (trim_xmax t s1) (\<lambda>s2.
     ebind (trim_ymin t s2) (\<lambda>s3.
     ebind (trim_ymax t s3) (\<lambda>s4. Inr (refresh_shape s4)))))"

subsection \<open>Compositing: placement and merge\<close>

text \<open>
  Lines 128 to 140: the offsets of the trimmed copy in the target, the window of the
  target's array of the copy's shape there, and the copy's array cut down to the window
  when the shapes differ. The result is the window and the copy.
\<close>

definition place :: "image \<Rightarrow> image \<Rightarrow> error + (ndarray \<times> image)" where
  "place t s =
     ebind (frac_index (width t) (xmin s) (xmin t) (xmax t) (xmin t)) (\<lambda>imin.
     ebind (frac_index (height t) (ymin s) (ymin t) (ymax t) (ymin t)) (\<lambda>jmin.
       let subtarget = slice2 (array t) (Some jmin) (Some (jmin + int (height s)))
                                        (Some imin) (Some (imin + int (width s)))
       in Inr (subtarget,
               if (nrows subtarget, ncols subtarget) \<noteq> (nrows (array s), ncols (array s))
               then s\<lparr>array := slice2 (array s) None (Some (int (nrows subtarget)))
                                                 None (Some (int (ncols subtarget)))\<rparr>
               else s)))"

text \<open>
  Lines 142 to 145: \<^verbatim>\<open>np.copyto(dst, src, where=src > dst)\<close> (or \<^verbatim>\<open>np.putmask\<close> on an
  old numpy) writes into the buffer behind \<open>dst\<close>, at the cells of the window where the
  source sample is greater (unsigned). The two shapes are equal wherever \<open>blit_onto\<close>
  calls it; arrays of different shapes are an error here.
\<close>

definition np_copyto :: "ndarray \<Rightarrow> ndarray \<Rightarrow> heap \<Rightarrow> error + heap" where
  "np_copyto dst src st =
     (if (nrows dst, ncols dst) \<noteq> (nrows src, ncols src) then Inl ValueError
      else Inr (st\<lparr>buffers := (buffers st)[buf dst :=
             (\<lambda>r c. if roff dst \<le> r \<and> r < roff dst + nrows dst \<and>
                        coff dst \<le> c \<and> c < coff dst + ncols dst \<and>
                        sample st dst (r - roff dst) (c - coff dst)
                          < sample st src (r - roff dst) (c - coff dst)
                     then sample st src (r - roff dst) (c - coff dst)
                     else (buffers st ! buf dst) r c)]\<rparr>))"

text \<open>
  \<^verbatim>\<open>Image.blit_onto(source, target)\<close>, lines 76 to 140: everything before the merge.
  The result is \<open>None\<close> when the call returns at line 89, and otherwise the window of
  the target's array, the array of the resampled and trimmed copy, and the store holding
  the copy. An exception abandons the call; up to here only the call's own copy has been
  assigned to.
\<close>

definition blit_window ::
  "ref \<Rightarrow> ref \<Rightarrow> heap \<Rightarrow> error + (ndarray \<times> ndarray \<times> heap) option" where
  "blit_window source target st =
     ebind (z_scale (images st ! source) (images st ! target)) (\<lambda>zs.
     ebind (pixel_scale (images st ! source) (images st ! target)) (\<lambda>ps.
       if fst ps = 0 \<or> snd ps = 0 then Inr None
       else
         ebind (copy source st) (\<lambda>(c, st1).
         ebind (resample c zs ps st1) (\<lambda>st2.
         ebind (trim (images st2 ! target) (images st2 ! c)) (\<lambda>s3.
         ebind (place (images st2 ! target) s3) (\<lambda>(subtarget, s4).
           Inr (Some (subtarget, array s4, set_image c (\<lambda>m. s4) st2))))))))"

text \<open>
  The whole call: the value returned (\<^verbatim>\<open>None\<close> at line 89, the target at line 147)
  and the store.
\<close>

definition blit_onto :: "ref \<Rightarrow> ref \<Rightarrow> heap \<Rightarrow> error + (ref option \<times> heap)" where
  "blit_onto source target st =
     ebind (blit_window source target st) (\<lambda>p.
       case p of
         None \<Rightarrow> Inr (None, st)
       | Some (subtarget, src, st4) \<Rightarrow>
           ebind (np_copyto subtarget src st4) (\<lambda>st5. Inr (Some target, st5)))"

text \<open>
  What a trim left of the copy along one axis: the attribute (width or height), the
  offset of the array's window in its buffer, and the extent of the array.
\<close>

definition columns_of :: "error + image \<Rightarrow> (nat \<times> nat \<times> nat) option" where
  "columns_of res =
     (case res of Inl e \<Rightarrow> None
      | Inr s \<Rightarrow> Some (width s, coff (array s), ncols (array s)))"

definition rows_of :: "error + image \<Rightarrow> (nat \<times> nat \<times> nat) option" where
  "rows_of res =
     (case res of Inl e \<Rightarrow> None
      | Inr s \<Rightarrow> Some (height s, roff (array s), nrows (array s)))"

text \<open>Cell \<open>(j, i)\<close> of the array \<open>a\<close> lies in the window \<open>sub\<close> of the same buffer.\<close>

definition inside :: "ndarray \<Rightarrow> ndarray \<Rightarrow> nat \<Rightarrow> nat \<Rightarrow> bool" where
  "inside sub a j i \<longleftrightarrow>
     roff sub \<le> roff a + j \<and> roff a + j < roff sub + nrows sub \<and>
     coff sub \<le> coff a + i \<and> coff a + i < coff sub + ncols sub"

subsection \<open>The public interface\<close>

text \<open>
  The calls a client can make, and what each returns: the constructors and \<^verbatim>\<open>copy\<close>
  return the new tile, the export calls return nothing that concerns the store (the
  row pointers of \<^verbatim>\<open>pixels\<close>, whatever its \<^verbatim>\<open>flip_y\<close>, are not modelled), and
  \<^verbatim>\<open>blit_onto\<close> returns what it returns.
\<close>

datatype call =
  New int int
| From_region region rat
| Copy ref
| Pixels bool ref
| Save bool ref
| Blit_onto ref ref

fun call_refs :: "call \<Rightarrow> ref list" where
  "call_refs (New w h) = []"
| "call_refs (From_region rg u) = []"
| "call_refs (Copy r) = [r]"
| "call_refs (Pixels cg r) = [r]"
| "call_refs (Save cg r) = [r]"
| "call_refs (Blit_onto s t) = [s, t]"

fun perform :: "call \<Rightarrow> heap \<Rightarrow> error + (ref option \<times> heap)" where
  "perform (New w h) st = ebind (Image_init w h st) (\<lambda>(r, st'). Inr (Some r, st'))"
| "perform (From_region rg u) st = ebind (from_region rg u st) (\<lambda>(r, st'). Inr (Some r, st'))"
| "perform (Copy r) st = ebind (copy r st) (\<lambda>(c, st'). Inr (Some c, st'))"
| "perform (Pixels cg r) st = Inr (None, pixels cg r st)"
| "perform (Save cg r) st = ebind (save cg r st) (\<lambda>st'. Inr (None, st'))"
| "perform (Blit_onto s t) st = blit_onto s t st"

text \<open>What a call returned, and the grid of tile \<open>r\<close> after it.\<close>

definition returned :: "error + (ref option \<times> heap) \<Rightarrow> ref option option" where
  "returned res = (case res of Inl e \<Rightarrow> None | Inr (v, st') \<Rightarrow> Some v)"

definition grid_after :: "error + (ref option \<times> heap) \<Rightarrow> ref \<Rightarrow> u16 list list option" where
  "grid_after res r =
     (case res of Inl e \<Rightarrow> None
      | Inr (v, st') \<Rightarrow> Some (grid_of st' (array (images st' ! r))))"

text \<open>The shape invariant of a tile.\<close>

definition shape_ok :: "image \<Rightarrow> bool" where
  "shape_ok m \<longleftrightarrow> nrows (array m) = height m \<and> ncols (array m) = width m"

subsection \<open>Example tiles\<close>

text \<open>A tile whose array is the whole of buffer \<open>b\<close>, with all six bounds set.\<close>

definition tile ::
  "ref \<Rightarrow> nat \<Rightarrow> nat \<Rightarrow> rat \<Rightarrow> rat \<Rightarrow> rat \<Rightarrow> rat \<Rightarrow> rat \<Rightarrow> rat \<Rightarrow> image" where
  "tile b w h x0 x1 y0 y1 z0 z1 =
     \<lparr>array = \<lparr>buf = b, roff = 0, coff = 0, nrows = h, ncols = w\<rparr>, width = w, height = h,
      xmin = Some x0, ymin = Some y0, zmin = Some z0,
      xmax = Some x1, ymax = Some y1, zmax = Some z1\<rparr>"

text \<open>
  The scenario of the specification: a 2 by 2 source filled with 1000 on x, y in [1, 3]
  and z in [5, 15] (tile 0), a 4 by 4 target of zeros on x, y in [0, 4] and z in
  [0, 10] (tile 1).
\<close>

definition scenario :: heap where
  "scenario = \<lparr>images = [tile 0 2 2 1 3 1 3 5 15, tile 1 4 4 0 4 0 4 0 10],
               buffers = [\<lambda>r c. 1000, \<lambda>r c. 0]\<rparr>"

text \<open>
  A 4 wide, 2 high source filled with 7 on x in [0, 4], y in [0, 2] (tile 0) and a target
  of the same size and density one unit higher, on y in [1, 3] (tile 1): the upper half
  of the source overlaps the lower half of the target.
\<close>

definition half_overlap :: heap where
  "half_overlap = \<lparr>images = [tile 0 4 2 0 4 0 2 0 1, tile 1 4 2 0 4 1 3 0 1],
                   buffers = [\<lambda>r c. 7, \<lambda>r c. 0]\<rparr>"

text \<open>Two tiles that share one buffer, as a tile and its copy do: rows 5 and 0.\<close>

definition shared :: heap where
  "shared = \<lparr>images = [tile 0 1 2 0 1 0 2 0 1, tile 0 1 2 0 1 0 2 0 1],
             buffers = [\<lambda>r c. if r = 0 then 5 else 0]\<rparr>"

text \<open>A 2 by 2 source (tile 0) and a target with no rows (tile 1).\<close>

definition empty_target :: heap where
  "empty_target = \<lparr>images = [tile 0 2 2 0 2 0 2 0 1, tile 1 4 0 0 4 0 4 0 1],
                   buffers = [\<lambda>r c. 7, \<lambda>r c. 0]\<rparr>"

text \<open>A 4 wide resampled copy on x in [0, 4] and a target on x in [2, 3].\<close>

definition wide_copy :: image where
  "wide_copy = tile 0 4 1 0 4 0 1 0 1"

definition narrow_target :: image where
  "narrow_target = tile 1 1 1 2 3 0 1 0 1"

text \<open>
  The two as source (tile 0, filled with 7) and target (tile 1, one cell, zero): the
  source covers all of the target's range x in [2, 3].
\<close>

definition covered_target :: heap where
  "covered_target = \<lparr>images = [wide_copy, narrow_target],
                     buffers = [\<lambda>r c. 7, \<lambda>r c. 0]\<rparr>"

section \<open>Properties\<close>

subsection \<open>Results that may raise\<close>

lemma ebind_Inl [simp]: "ebind (Inl e) f = Inl e"
  by (simp add: ebind_def)

lemma ebind_Inr [simp]: "ebind (Inr x) f = f x"
  by (simp add: ebind_def)

lemma ebind_eq_Inr: "ebind m f = Inr y \<longleftrightarrow> (\<exists>x. m = Inr x \<and> f x = Inr y)"
  by (cases m) simp_all

subsection \<open>Numbers\<close>

lemma py_int_num [simp]:
  "py_int 0 = 0" "py_int 1 = 1" "py_int (numeral n) = numeral n"
  "py_int (- numeral n) = - numeral n"
  by (simp_all add: py_int_def)

lemma py_int_minus_one [simp]: "py_int (- 1) = - 1"
  using ceiling_of_int [of "- 1", where ?'a = rat] by (simp add: py_int_def)

lemma py_round_num [simp]: "py_round 0 = 0" "py_round 1 = 1" "py_round (numeral n) = numeral n"
  by (simp_all add: py_round_def Let_def)

lemma py_round_le: "rat_of_int (py_round x) \<le> x + 1 / 2"
proof -
  have "rat_of_int \<lfloor>x\<rfloor> \<le> x" by simp
  then show ?thesis
    by (auto simp: py_round_def Let_def; linarith)
qed

lemma py_round_nonneg: "0 \<le> x \<Longrightarrow> 0 \<le> py_round x"
  by (auto simp: py_round_def Let_def)

lemma floor_rat_numeral_div [simp]:
  "\<lfloor>numeral a / numeral b :: rat\<rfloor> = numeral a div numeral b"
  "\<lfloor>1 / numeral b :: rat\<rfloor> = 1 div numeral b"
  using floor_divide_of_int_eq [of "numeral a" "numeral b", where ?'a = rat]
    floor_divide_of_int_eq [of 1 "numeral b", where ?'a = rat]
  by simp_all

lemma upt_small: "[0..<4] = [0, 1, 2, 3]" "[0..<2] = [0, 1]" "[0..<1] = [0]"
  by code_simp+

subsection \<open>Slices\<close>

lemma slice_axis_within: "fst (slice_axis n lo hi) + snd (slice_axis n lo hi) \<le> n"
  by (auto simp: slice_axis_def slice_index_def Let_def split: option.splits)

lemma slice_axis_length: "snd (slice_axis n (Some a) (Some (a + int m))) \<le> m"
  by (auto simp: slice_axis_def slice_index_def Let_def)

lemma slice_axis_prefix:
  "fst (slice_axis n None (Some (int k))) = 0" "snd (slice_axis n None (Some (int k))) = min n k"
  by (auto simp: slice_axis_def slice_index_def Let_def)

lemma slice2_sel [simp]:
  "buf (slice2 a r0 r1 c0 c1) = buf a"
  "roff (slice2 a r0 r1 c0 c1) = roff a + fst (slice_axis (nrows a) r0 r1)"
  "coff (slice2 a r0 r1 c0 c1) = coff a + fst (slice_axis (ncols a) c0 c1)"
  "nrows (slice2 a r0 r1 c0 c1) = snd (slice_axis (nrows a) r0 r1)"
  "ncols (slice2 a r0 r1 c0 c1) = snd (slice_axis (ncols a) c0 c1)"
  by (simp_all add: slice2_def Let_def)

subsection \<open>Construction, copy and resampling, step by step\<close>

lemma Image_init_eq:
  "Image_init w h st = Inr (r, st') \<Longrightarrow>
     r = length (images st) \<and>
     images st' = images st @ [\<lparr>array = \<lparr>buf = length (buffers st), roff = 0, coff = 0,
                                        nrows = nat h, ncols = nat w\<rparr>,
                                 width = nat w, height = nat h,
                                 xmin = None, ymin = None, zmin = None,
                                 xmax = None, ymax = None, zmax = None\<rparr>]"
  by (auto simp: Image_init_def np_zeros_def Let_def split: if_splits)

lemma Image_init_shape:
  assumes "Image_init w h st = Inr (r, st')"
  shows "shape_ok (images st' ! r)"
    and "q < length (images st) \<Longrightarrow> images st' ! q = images st ! q"
  using Image_init_eq [OF assms] by (simp_all add: shape_ok_def nth_append)

lemma from_region_shape:
  assumes "from_region rg u st = Inr (r, st')"
  shows "shape_ok (images st' ! r)"
    and "q < length (images st) \<Longrightarrow> images st' ! q = images st ! q"
  using assms
  by (auto simp: from_region_def ebind_eq_Inr set_image_def shape_ok_def nth_append
           dest!: Image_init_eq)

lemma copy_eq:
  assumes "self < length (images st)"
  shows "copy self st =
           Inr (length (images st),
                st\<lparr>images := images st @ [images st ! self],
                   buffers := buffers st @ [\<lambda>r c. 0]\<rparr>)"
  using assms
  by (simp add: copy_def Image_init_def np_zeros_def set_image_def nth_append)

lemma copy_shape:
  assumes "self < length (images st)" and "copy self st = Inr (r, st')"
  shows "images st' ! r = images st ! self"
    and "q < length (images st) \<Longrightarrow> images st' ! q = images st ! q"
  using assms(2) by (auto simp: copy_eq [OF assms(1)] nth_append)

lemma pixels_shape:
  assumes "q < length (images st)" and "shape_ok (images st ! q)"
  shows "shape_ok (images (pixels cg self st) ! q)"
  using assms
  by (cases "self = q")
     (auto simp: pixels_def np_ascontiguousarray_def set_image_def Let_def shape_ok_def)

lemma resample_eq:
  "resample c zs ps st =
     (if py_round (of_nat (nrows (array (images st ! c))) * fst ps) < 0 \<or>
         py_round (of_nat (ncols (array (images st ! c))) * snd ps) < 0
      then Inl ValueError
      else Inr (st\<lparr>images := (images st)[c := (images st ! c)
                     \<lparr>array := \<lparr>buf = length (buffers st), roff = 0, coff = 0,
                        nrows = nat (py_round (of_nat (nrows (array (images st ! c))) * fst ps)),
                        ncols = nat (py_round (of_nat (ncols (array (images st ! c))) * snd ps))\<rparr>,
                      height := nat (py_round (of_nat (nrows (array (images st ! c))) * fst ps)),
                      width := nat (py_round (of_nat (ncols (array (images st ! c))) * snd ps))\<rparr>],
                  buffers := buffers st @
                    [\<lambda>j i. to_uint16 (flip_scale st (array (images st ! c)) zs
                        (zoom_index (nrows (array (images st ! c))) (fst ps) j)
                        (zoom_index (ncols (array (images st ! c))) (snd ps) i))]\<rparr>))"
  by (simp add: resample_def zoom_def Let_def set_image_def)

lemma resample_returns:
  assumes "0 \<le> fst ps" and "0 \<le> snd ps"
  shows "\<exists>st2. resample c zs ps st = Inr st2"
  using assms by (simp add: resample_eq py_round_nonneg not_less)

lemma zoom_index_floor:
  assumes "j < nat (py_round (of_nat n * z))"
  shows "0 < z" and "nat \<lfloor>of_nat j / z\<rfloor> < n" and "zoom_index n z j = nat \<lfloor>of_nat j / z\<rfloor>"
proof -
  from assms have "int j + 1 \<le> py_round (of_nat n * z)" by linarith
  then have "rat_of_int (int j + 1) \<le> rat_of_int (py_round (of_nat n * z))"
    by (simp only: of_int_le_iff)
  with py_round_le [of "of_nat n * z"] have lt: "rat_of_nat j < of_nat n * z"
    by simp
  have "0 \<le> rat_of_nat j" by simp
  with lt have pos: "0 < rat_of_nat n * z" by linarith
  then show z: "0 < z"
    by (simp add: zero_less_mult_iff)
  from lt z have "rat_of_nat j / z < of_nat n"
    by (simp add: pos_divide_less_eq)
  then have fl: "\<lfloor>rat_of_nat j / z\<rfloor> < int n"
    by (simp add: floor_less_iff)
  have nn: "0 \<le> \<lfloor>rat_of_nat j / z\<rfloor>"
    using z by simp
  from fl nn show "nat \<lfloor>of_nat j / z\<rfloor> < n" by linarith
  from fl nn show "zoom_index n z j = nat \<lfloor>of_nat j / z\<rfloor>"
    by (simp add: zoom_index_def)
qed

lemma resample_cells:
  assumes c: "c < length (images st)"
    and run: "resample c zs (rs, cs) st = Inr st2"
  shows "nrows (array (images st2 ! c)) = nat (py_round (of_nat (nrows (array (images st ! c))) * rs)) \<and>
         ncols (array (images st2 ! c)) = nat (py_round (of_nat (ncols (array (images st ! c))) * cs)) \<and>
         height (images st2 ! c) = nrows (array (images st2 ! c)) \<and>
         width (images st2 ! c) = ncols (array (images st2 ! c)) \<and>
         (\<forall>j i. j < nrows (array (images st2 ! c)) \<and> i < ncols (array (images st2 ! c)) \<longrightarrow>
            nat \<lfloor>of_nat j / rs\<rfloor> < nrows (array (images st ! c)) \<and>
            nat \<lfloor>of_nat i / cs\<rfloor> < ncols (array (images st ! c)) \<and>
            sample st2 (array (images st2 ! c)) j i =
              to_uint16 (of_nat (unat (sample st (array (images st ! c))
                           (nrows (array (images st ! c)) - 1 - nat \<lfloor>of_nat j / rs\<rfloor>)
                           (nat \<lfloor>of_nat i / cs\<rfloor>))) * zs))"
proof -
  let ?A = "array (images st ! c)"
  let ?oh = "nat (py_round (of_nat (nrows ?A) * rs))"
  let ?ow = "nat (py_round (of_nat (ncols ?A) * cs))"
  let ?g = "\<lambda>j i. to_uint16 (flip_scale st ?A zs (zoom_index (nrows ?A) rs j)
                                                  (zoom_index (ncols ?A) cs i))"
  from run have im: "images st2 = (images st)[c := (images st ! c)
                     \<lparr>array := \<lparr>buf = length (buffers st), roff = 0, coff = 0,
                                 nrows = ?oh, ncols = ?ow\<rparr>,
                      height := ?oh, width := ?ow\<rparr>]"
    and bf: "buffers st2 = buffers st @ [?g]"
    by (auto simp: resample_eq split: if_splits)
  have B: "array (images st2 ! c) = \<lparr>buf = length (buffers st), roff = 0, coff = 0,
                                      nrows = ?oh, ncols = ?ow\<rparr>"
    and hw: "height (images st2 ! c) = ?oh" "width (images st2 ! c) = ?ow"
    using c by (simp_all add: im)
  have cellv: "sample st2 (array (images st2 ! c)) j i = ?g j i" for j i
    by (simp add: B sample_def bf)
  have cell: "nat \<lfloor>of_nat j / rs\<rfloor> < nrows ?A \<and> nat \<lfloor>of_nat i / cs\<rfloor> < ncols ?A \<and>
      sample st2 (array (images st2 ! c)) j i =
        to_uint16 (of_nat (unat (sample st ?A (nrows ?A - 1 - nat \<lfloor>of_nat j / rs\<rfloor>)
                                              (nat \<lfloor>of_nat i / cs\<rfloor>))) * zs)"
    if "j < ?oh" and "i < ?ow" for j i
    using zoom_index_floor(2,3) [OF that(1)] zoom_index_floor(2,3) [OF that(2)]
    by (simp add: cellv flip_scale_def)
  then have "\<forall>j i. j < ?oh \<and> i < ?ow \<longrightarrow>
      nat \<lfloor>of_nat j / rs\<rfloor> < nrows ?A \<and> nat \<lfloor>of_nat i / cs\<rfloor> < ncols ?A \<and>
      sample st2 (array (images st2 ! c)) j i =
        to_uint16 (of_nat (unat (sample st ?A (nrows ?A - 1 - nat \<lfloor>of_nat j / rs\<rfloor>)
                                              (nat \<lfloor>of_nat i / cs\<rfloor>))) * zs)"
    by blast
  then show ?thesis
    by (simp add: B hw) blast
qed

subsection \<open>Trimming and placement, step by step\<close>

lemma trim_xmin_keeps:
  "trim_xmin t s = Inr s' \<Longrightarrow>
     buf (array s') = buf (array s) \<and> width s' = width s \<and> height s' = height s"
  by (auto simp: trim_xmin_def ebind_eq_Inr split: if_splits)

lemma trim_xmax_keeps:
  "trim_xmax t s = Inr s' \<Longrightarrow>
     buf (array s') = buf (array s) \<and> width s' = width s \<and> height s' = height s"
  by (auto simp: trim_xmax_def ebind_eq_Inr split: if_splits)

lemma trim_ymin_keeps:
  "trim_ymin t s = Inr s' \<Longrightarrow>
     buf (array s') = buf (array s) \<and> width s' = width s \<and> height s' = height s"
  by (auto simp: trim_ymin_def ebind_eq_Inr split: if_splits)

lemma trim_ymax_keeps:
  "trim_ymax t s = Inr s' \<Longrightarrow>
     buf (array s') = buf (array s) \<and> width s' = width s \<and> height s' = height s"
  by (auto simp: trim_ymax_def ebind_eq_Inr split: if_splits)

lemma trim_steps:
  assumes "trim t s = Inr s'"
  obtains s1 s2 s3 s4 where "trim_xmin t s = Inr s1" "trim_xmax t s1 = Inr s2"
    "trim_ymin t s2 = Inr s3" "trim_ymax t s3 = Inr s4" "s' = refresh_shape s4"
  using assms by (auto simp: trim_def ebind_eq_Inr)

lemma trim_buf: "trim t s = Inr s' \<Longrightarrow> buf (array s') = buf (array s)"
  by (erule trim_steps)
     (simp add: refresh_shape_def trim_xmin_keeps trim_xmax_keeps trim_ymin_keeps trim_ymax_keeps)

lemma trim_shape_ok: "trim t s = Inr s' \<Longrightarrow> shape_ok s'"
  by (erule trim_steps) (simp add: refresh_shape_def shape_ok_def)

lemma place_props:
  assumes "shape_ok s" and "place t s = Inr (sub, s')"
  shows "buf sub = buf (array t)" and "buf (array s') = buf (array s)"
    and "nrows (array s') = nrows sub" and "ncols (array s') = ncols sub"
    and "roff (array t) \<le> roff sub" and "roff sub + nrows sub \<le> roff (array t) + nrows (array t)"
    and "coff (array t) \<le> coff sub" and "coff sub + ncols sub \<le> coff (array t) + ncols (array t)"
proof -
  from assms(2) obtain imin jmin where
    sub: "sub = slice2 (array t) (Some jmin) (Some (jmin + int (height s)))
                                  (Some imin) (Some (imin + int (width s)))"
    and s': "s' = (if (nrows sub, ncols sub) \<noteq> (nrows (array s), ncols (array s))
               then s\<lparr>array := slice2 (array s) None (Some (int (nrows sub)))
                                                 None (Some (int (ncols sub)))\<rparr>
               else s)"
    by (auto simp: place_def ebind_eq_Inr Let_def)
  have r: "nrows sub \<le> nrows (array s)" and c: "ncols sub \<le> ncols (array s)"
    using assms(1) slice_axis_length [of "nrows (array t)" jmin "height s"]
      slice_axis_length [of "ncols (array t)" imin "width s"]
    by (simp_all add: sub shape_ok_def)
  show "buf sub = buf (array t)" by (simp add: sub)
  show "buf (array s') = buf (array s)" by (simp add: s')
  show "nrows (array s') = nrows sub" using r by (simp add: s' slice_axis_prefix)
  show "ncols (array s') = ncols sub" using c by (simp add: s' slice_axis_prefix)
  show "roff (array t) \<le> roff sub" by (simp add: sub)
  show "coff (array t) \<le> coff sub" by (simp add: sub)
  show "roff sub + nrows sub \<le> roff (array t) + nrows (array t)"
    using slice_axis_within [of "nrows (array t)" "Some jmin" "Some (jmin + int (height s))"]
    by (simp add: sub)
  show "coff sub + ncols sub \<le> coff (array t) + ncols (array t)"
    using slice_axis_within [of "ncols (array t)" "Some imin" "Some (imin + int (width s))"]
    by (simp add: sub)
qed

subsection \<open>The call as a whole\<close>

lemma blit_window_Some:
  assumes src: "source < length (images st)" and tgt: "target < length (images st)"
    and run: "blit_window source target st = Inr (Some (sub, a, st4))"
  obtains s4 g where
    "images st4 = images st @ [s4]" and "array s4 = a"
    and "buffers st4 = buffers st @ [\<lambda>r c. 0, g]"
    and "buf a = Suc (length (buffers st))"
    and "buf sub = buf (array (images st ! target))"
    and "nrows a = nrows sub" and "ncols a = ncols sub"
    and "roff (array (images st ! target)) \<le> roff sub"
    and "roff sub + nrows sub \<le> roff (array (images st ! target)) + nrows (array (images st ! target))"
    and "coff (array (images st ! target)) \<le> coff sub"
    and "coff sub + ncols sub \<le> coff (array (images st ! target)) + ncols (array (images st ! target))"
proof -
  let ?st1 = "st\<lparr>images := images st @ [images st ! source],
                  buffers := buffers st @ [\<lambda>r c. 0]\<rparr>"
  let ?c = "length (images st)"
  from run obtain zs ps st2 s3 s4 where
    ps: "fst ps \<noteq> 0" "snd ps \<noteq> 0"
    and rs: "resample ?c zs ps ?st1 = Inr st2"
    and tr: "trim (images st2 ! target) (images st2 ! ?c) = Inr s3"
    and pl: "place (images st2 ! target) s3 = Inr (sub, s4)"
    and a: "a = array s4" and st4: "st4 = set_image ?c (\<lambda>m. s4) st2"
    by (auto simp: blit_window_def ebind_eq_Inr copy_eq [OF src] split: if_splits)
  from rs obtain m g where
    im2: "images st2 = (images st @ [images st ! source])[?c := m]"
    and bm: "buf (array m) = Suc (length (buffers st))"
    and bf2: "buffers st2 = buffers st @ [\<lambda>r c. 0, g]"
    by (auto simp: resample_eq split: if_splits)
  have t2: "images st2 ! target = images st ! target"
    using tgt by (simp add: im2 nth_append)
  have c2: "images st2 ! ?c = m"
    by (simp add: im2)
  note pp = place_props [OF trim_shape_ok [OF tr] pl, unfolded t2]
  show ?thesis
  proof (rule that [of s4 g])
    show "images st4 = images st @ [s4]"
      by (simp add: st4 set_image_def im2)
    show "array s4 = a" by (simp add: a)
    show "buffers st4 = buffers st @ [\<lambda>r c. 0, g]"
      by (simp add: st4 set_image_def bf2)
    show "buf a = Suc (length (buffers st))"
      using pp(2) trim_buf [OF tr] by (simp add: a c2 bm)
    show "buf sub = buf (array (images st ! target))" by (rule pp(1))
    show "nrows a = nrows sub" by (simp add: a pp(3))
    show "ncols a = ncols sub" by (simp add: a pp(4))
    show "roff (array (images st ! target)) \<le> roff sub" by (rule pp(5))
    show "roff sub + nrows sub \<le> roff (array (images st ! target)) + nrows (array (images st ! target))"
      by (rule pp(6))
    show "coff (array (images st ! target)) \<le> coff sub" by (rule pp(7))
    show "coff sub + ncols sub \<le> coff (array (images st ! target)) + ncols (array (images st ! target))"
      by (rule pp(8))
  qed
qed

lemma blit_onto_None:
  "blit_onto source target st = Inr (None, st') \<longleftrightarrow>
     blit_window source target st = Inr None \<and> st' = st"
  by (auto simp: blit_onto_def ebind_eq_Inr split: option.splits)

lemma blit_onto_Some:
  "blit_onto source target st = Inr (Some r, st') \<longleftrightarrow>
     (\<exists>sub a st4. blit_window source target st = Inr (Some (sub, a, st4)) \<and>
        np_copyto sub a st4 = Inr st' \<and> r = target)"
  by (auto simp: blit_onto_def ebind_eq_Inr split: option.splits)

lemma np_copyto_eq:
  assumes "nrows dst = nrows src" and "ncols dst = ncols src"
  shows "np_copyto dst src st =
     Inr (st\<lparr>buffers := (buffers st)[buf dst :=
             (\<lambda>r c. if roff dst \<le> r \<and> r < roff dst + nrows dst \<and>
                        coff dst \<le> c \<and> c < coff dst + ncols dst \<and>
                        sample st dst (r - roff dst) (c - coff dst)
                          < sample st src (r - roff dst) (c - coff dst)
                     then sample st src (r - roff dst) (c - coff dst)
                     else (buffers st ! buf dst) r c)]\<rparr>)"
  using assms by (simp add: np_copyto_def)

lemma blit_onto_images:
  assumes src: "source < length (images st)" and tgt: "target < length (images st)"
    and run: "blit_onto source target st = Inr (v, st')"
    and q: "q < length (images st)"
  shows "images st' ! q = images st ! q"
proof (cases v)
  case None
  with run show ?thesis by (simp add: blit_onto_None)
next
  case (Some r)
  with run obtain sub a st4 where
    win: "blit_window source target st = Inr (Some (sub, a, st4))"
    and cp: "np_copyto sub a st4 = Inr st'"
    by (auto simp: blit_onto_Some)
  from blit_window_Some [OF src tgt win] obtain s4 where
    im4: "images st4 = images st @ [s4]"
    and shape: "nrows a = nrows sub" "ncols a = ncols sub"
    by metis
  from cp have "images st' = images st4"
    by (auto simp: np_copyto_eq shape)
  with q show ?thesis by (simp add: im4 nth_append)
qed

lemma blit_onto_returns:
  "blit_onto source target st = Inr (Some r, st') \<Longrightarrow> r = target"
  by (auto simp: blit_onto_Some)

lemma blit_onto_zero_scale:
  assumes "z_scale (images st ! source) (images st ! target) = Inr zs"
    and "pixel_scale (images st ! source) (images st ! target) = Inr ps"
    and "fst ps = 0 \<or> snd ps = 0"
  shows "blit_onto source target st = Inr (None, st)"
  using assms by (simp add: blit_onto_def blit_window_def)

subsection \<open>The example tiles, evaluated\<close>

lemmas blit_eval = z_scale_def pixel_scale_def density_def
  py_sub_def py_div_def py_gt_def py_lt_def frac_index_def 
  copy_eq resample_eq trim_def
  trim_xmin_def trim_xmax_def trim_ymin_def trim_ymax_def refresh_shape_def place_def
  set_image_def slice_axis_def slice_index_def flip_scale_def
  sample_def to_uint16_def zoom_index_def tile_def Let_def

lemma scenario_window:
  "blit_window 0 1 scenario =
     Inr (Some (\<lparr>buf = 1, roff = 1, coff = 1, nrows = 2, ncols = 2\<rparr>,
                \<lparr>buf = 3, roff = 0, coff = 0, nrows = 2, ncols = 2\<rparr>,
                \<lparr>images = [tile 0 2 2 1 3 1 3 5 15, tile 1 4 4 0 4 0 4 0 10,
                           tile 3 2 2 1 3 1 3 5 15],
                 buffers = [\<lambda>r c. 1000, \<lambda>r c. 0, \<lambda>r c. 0, \<lambda>r c. 1500]\<rparr>))"
  by (simp add: scenario_def blit_window_def blit_eval)

lemma scenario_runs: "\<exists>st'. blit_onto 0 1 scenario = Inr (Some 1, st')"
  unfolding blit_onto_def scenario_window by (simp add: np_copyto_def)

subsection \<open>The merge\<close>

text \<open>
  C1. When \<^verbatim>\<open>blit_onto(source, target)\<close> runs to its end (so all bounds it reads are
  set and both pixel-density ratios are nonzero), there is a window \<open>sub\<close> of the
  target's grid and a placed source array \<open>a\<close> of the same shape, both computed before
  the merge, such that every cell of the target inside the window ends with the maximum
  of its old value and the placed source value, and every other cell keeps its value.
  The call returns the target, whose attributes are unchanged.
\<close>

theorem blit_onto_max_merge:
  assumes src: "source < length (images st)" and tgt: "target < length (images st)"
    and tb: "buf (array (images st ! target)) < length (buffers st)"
    and run: "blit_onto source target st = Inr (Some r, st')"
  shows "\<exists>sub a st4.
           blit_window source target st = Inr (Some (sub, a, st4)) \<and>
           r = target \<and> images st' ! target = images st ! target \<and>
           nrows a = nrows sub \<and> ncols a = ncols sub \<and>
           (\<forall>j i. inside sub (array (images st ! target)) j i \<longrightarrow>
              j < nrows (array (images st ! target)) \<and>
              i < ncols (array (images st ! target))) \<and>
           (\<forall>j i. sample st' (array (images st ! target)) j i =
              (if inside sub (array (images st ! target)) j i
               then max (sample st (array (images st ! target)) j i)
                        (sample st4 a (roff (array (images st ! target)) + j - roff sub)
                                      (coff (array (images st ! target)) + i - coff sub))
               else sample st (array (images st ! target)) j i))"
proof -
  let ?T = "array (images st ! target)"
  from run obtain sub a st4 where
    win: "blit_window source target st = Inr (Some (sub, a, st4))"
    and cp: "np_copyto sub a st4 = Inr st'" and r: "r = target"
    by (auto simp: blit_onto_Some)
  from blit_window_Some [OF src tgt win] obtain s4 g where
    im4: "images st4 = images st @ [s4]"
    and bf4: "buffers st4 = buffers st @ [\<lambda>r c. 0, g]"
    and bs: "buf sub = buf ?T"
    and shape: "nrows a = nrows sub" "ncols a = ncols sub"
    and rows: "roff sub + nrows sub \<le> roff ?T + nrows ?T"
    and cols: "coff sub + ncols sub \<le> coff ?T + ncols ?T"
    by metis
  have st': "st' = st4\<lparr>buffers := (buffers st4)[buf sub :=
             (\<lambda>r c. if roff sub \<le> r \<and> r < roff sub + nrows sub \<and>
                        coff sub \<le> c \<and> c < coff sub + ncols sub \<and>
                        sample st4 sub (r - roff sub) (c - coff sub)
                          < sample st4 a (r - roff sub) (c - coff sub)
                     then sample st4 a (r - roff sub) (c - coff sub)
                     else (buffers st4 ! buf sub) r c)]\<rparr>"
    using cp by (simp add: np_copyto_eq shape)
  have old: "buffers st4 ! buf sub = buffers st ! buf ?T"
    using tb by (simp add: bf4 bs nth_append)
  have len: "buf sub < length (buffers st4)"
    using tb by (simp add: bf4 bs)
  have img: "images st' ! target = images st ! target"
    using tgt by (simp add: st' im4 nth_append)
  have within: "j < nrows ?T \<and> i < ncols ?T" if "inside sub ?T j i" for j i
    using that rows cols by (simp add: inside_def)
  have cell: "sample st' ?T j i =
                (if inside sub ?T j i
                 then max (sample st ?T j i)
                          (sample st4 a (roff ?T + j - roff sub) (coff ?T + i - coff sub))
                 else sample st ?T j i)" for j i
    using len by (auto simp: st' sample_def bs [symmetric] old inside_def max_def not_less)
  show ?thesis
    using win r img shape within cell by blast
qed

theorem blit_onto_max_merge_witness:
  "\<exists>st'. blit_onto 0 1 scenario = Inr (Some 1, st') \<and>
         sample st' (array (images scenario ! 1)) 1 2 = 1500 \<and>
         sample st' (array (images scenario ! 1)) 0 2 = 0"
proof -
  from scenario_runs obtain st' where run: "blit_onto 0 1 scenario = Inr (Some 1, st')" ..
  have v: "0 < length (images scenario)" "1 < length (images scenario)"
    "buf (array (images scenario ! 1)) < length (buffers scenario)"
    by (simp_all add: scenario_def tile_def)
  from blit_onto_max_merge [OF v run] obtain sub a st4 where
    win: "blit_window 0 1 scenario = Inr (Some (sub, a, st4))"
    and cells: "\<And>j i. sample st' (array (images scenario ! 1)) j i =
        (if inside sub (array (images scenario ! 1)) j i
         then max (sample scenario (array (images scenario ! 1)) j i)
                  (sample st4 a (roff (array (images scenario ! 1)) + j - roff sub)
                                (coff (array (images scenario ! 1)) + i - coff sub))
         else sample scenario (array (images scenario ! 1)) j i)"
    by blast
  from win [unfolded scenario_window] have sub: "sub = \<lparr>buf = 1, roff = 1, coff = 1, nrows = 2, ncols = 2\<rparr>"
    and a: "a = \<lparr>buf = 3, roff = 0, coff = 0, nrows = 2, ncols = 2\<rparr>"
    and st4: "st4 = \<lparr>images = [tile 0 2 2 1 3 1 3 5 15, tile 1 4 4 0 4 0 4 0 10,
                           tile 3 2 2 1 3 1 3 5 15],
                 buffers = [\<lambda>r c. 1000, \<lambda>r c. 0, \<lambda>r c. 0, \<lambda>r c. 1500]\<rparr>"
    by simp_all
  have "sample st' (array (images scenario ! 1)) 1 2 = 1500"
    using cells [of 1 2] by (simp add: sub a st4 inside_def sample_def scenario_def tile_def)
  moreover have "sample st' (array (images scenario ! 1)) 0 2 = 0"
    using cells [of 0 2] by (simp add: sub a st4 inside_def sample_def scenario_def tile_def)
  ultimately show ?thesis using run by blast
qed

subsection \<open>Resampling\<close>

text \<open>
  C2. The grid that the resampling step of \<^verbatim>\<open>blit_onto\<close> assigns to the copy has,
  at output cell \<open>(j, i)\<close>, the sample of the source grid read with its rows reversed at
  \<open>(\<lfloor>j / rowScale\<rfloor>, \<lfloor>i / colScale\<rfloor>)\<close>, multiplied by the z-scale and converted to an
  unsigned 16-bit value; both indices lie in the source grid, the copy's height and
  width are the new shape, and the step returns for all factors that are not negative.
\<close>

theorem resample_nearest:
  assumes c: "c < length (images st)"
  shows "(0 \<le> rs \<and> 0 \<le> cs \<longrightarrow> (\<exists>st2. resample c zs (rs, cs) st = Inr st2)) \<and>
         (\<forall>st2. resample c zs (rs, cs) st = Inr st2 \<longrightarrow>
            nrows (array (images st2 ! c)) =
              nat (py_round (of_nat (nrows (array (images st ! c))) * rs)) \<and>
            ncols (array (images st2 ! c)) =
              nat (py_round (of_nat (ncols (array (images st ! c))) * cs)) \<and>
            height (images st2 ! c) = nrows (array (images st2 ! c)) \<and>
            width (images st2 ! c) = ncols (array (images st2 ! c)) \<and>
            (\<forall>j i. j < nrows (array (images st2 ! c)) \<and> i < ncols (array (images st2 ! c)) \<longrightarrow>
               nat \<lfloor>of_nat j / rs\<rfloor> < nrows (array (images st ! c)) \<and>
               nat \<lfloor>of_nat i / cs\<rfloor> < ncols (array (images st ! c)) \<and>
               sample st2 (array (images st2 ! c)) j i =
                 to_uint16 (of_nat (unat (sample st (array (images st ! c))
                              (nrows (array (images st ! c)) - 1 - nat \<lfloor>of_nat j / rs\<rfloor>)
                              (nat \<lfloor>of_nat i / cs\<rfloor>))) * zs)))"
proof -
  have "\<exists>st2. resample c zs (rs, cs) st = Inr st2" if "0 \<le> rs \<and> 0 \<le> cs"
    using that resample_returns [of "(rs, cs)" c zs st] by simp
  with resample_cells [OF c, of zs rs cs] show ?thesis
    by blast
qed

theorem resample_nearest_witness:
  "\<exists>st2. resample 0 2 (2, 1) shared = Inr st2 \<and>
          grid_of shared (array (images shared ! 0)) = [[5], [0]] \<and>
          grid_of st2 (array (images st2 ! 0)) = [[0], [0], [10], [10]]"
proof -
  let ?A = "array (images shared ! 0)"
  have c: "0 < length (images shared)" by (simp add: shared_def)
  note rn = resample_nearest [OF c, of 2 1 2]
  from rn obtain st2 where run: "resample 0 2 (2, 1) shared = Inr st2"
    by auto
  with rn have dims: "nrows (array (images st2 ! 0)) = 4" "ncols (array (images st2 ! 0)) = 1"
    and cells: "\<And>j i. j < nrows (array (images st2 ! 0)) \<and> i < ncols (array (images st2 ! 0)) \<longrightarrow>
       sample st2 (array (images st2 ! 0)) j i =
         to_uint16 (of_nat (unat (sample shared ?A (nrows ?A - 1 - nat \<lfloor>of_nat j / (2::rat)\<rfloor>)
                                                  (nat \<lfloor>of_nat i / (1::rat)\<rfloor>))) * 2)"
    by (simp_all add: shared_def tile_def)
  have A: "?A = \<lparr>buf = 0, roff = 0, coff = 0, nrows = 2, ncols = 1\<rparr>"
    by (simp add: shared_def tile_def)
  have src: "sample shared \<lparr>buf = 0, roff = 0, coff = 0, nrows = h, ncols = w\<rparr> r k =
      (if r = 0 then 5 else 0)" for h w r k
    by (simp add: shared_def sample_def)
  have "sample st2 (array (images st2 ! 0)) 0 0 = 0"
       "sample st2 (array (images st2 ! 0)) 1 0 = 0"
       "sample st2 (array (images st2 ! 0)) 2 0 = 10"
       "sample st2 (array (images st2 ! 0)) 3 0 = 10"
    using cells [of 0 0] cells [of 1 0] cells [of 2 0] cells [of 3 0]
    by (simp_all add: dims src A to_uint16_def)
  then have "grid_of st2 (array (images st2 ! 0)) = [[0], [0], [10], [10]]"
    by (simp add: grid_of_def dims upt_small)
  moreover have "grid_of shared ?A = [[5], [0]]"
    by (simp add: grid_of_def src A upt_small)
  ultimately show ?thesis using run by blast
qed

subsection \<open>Trimming\<close>

text \<open>
  C3. The two row trims compute their index from \<^verbatim>\<open>source.width\<close>, not from the
  row count. For a 4 wide and 2 high source on y in [0, 2] and a target on y in [1, 3]
  the row count gives index 1, the code computes 2 and drops both rows, and the call
  leaves the target all zero although the tiles overlap.
\<close>

theorem y_trim_uses_width:
  "frac_index (height (images half_overlap ! 0))
      (ymin (images half_overlap ! 1)) (ymin (images half_overlap ! 0))
      (ymax (images half_overlap ! 0)) (ymin (images half_overlap ! 0)) = Inr 1 \<and>
   rows_of (trim_ymin (images half_overlap ! 1) (images half_overlap ! 0)) = Some (2, 2, 0) \<and>
   grid_after (blit_onto 0 1 half_overlap) 1 = Some [[0, 0, 0, 0], [0, 0, 0, 0]]"
  by (simp add: half_overlap_def blit_onto_def blit_window_def np_copyto_def blit_eval
        grid_after_def grid_of_def rows_of_def upt_small)

text \<open>
  None of the four trims assigns the width or the height of the copy; the two
  attributes are next assigned at line 126, after the fourth trim.
\<close>

lemma trims_keep_size:
  assumes "trim t s = Inr s'"
  shows "\<exists>s1 s2 s3 s4.
           trim_xmin t s = Inr s1 \<and> trim_xmax t s1 = Inr s2 \<and>
           trim_ymin t s2 = Inr s3 \<and> trim_ymax t s3 = Inr s4 \<and>
           width s1 = width s \<and> height s1 = height s \<and>
           width s2 = width s \<and> height s2 = height s \<and>
           width s3 = width s \<and> height s3 = height s \<and>
           width s4 = width s \<and> height s4 = height s \<and>
           s' = refresh_shape s4 \<and>
           height s' = nrows (array s') \<and> width s' = ncols (array s')"
proof -
  from assms obtain s1 s2 s3 s4 where
    st: "trim_xmin t s = Inr s1" "trim_xmax t s1 = Inr s2"
        "trim_ymin t s2 = Inr s3" "trim_ymax t s3 = Inr s4" "s' = refresh_shape s4"
    by (rule trim_steps)
  have "width s1 = width s \<and> height s1 = height s"
    using trim_xmin_keeps [OF st(1)] by simp
  moreover have "width s2 = width s1 \<and> height s2 = height s1"
    using trim_xmax_keeps [OF st(2)] by simp
  moreover have "width s3 = width s2 \<and> height s3 = height s2"
    using trim_ymin_keeps [OF st(3)] by simp
  moreover have "width s4 = width s3 \<and> height s4 = height s3"
    using trim_ymax_keeps [OF st(4)] by simp
  moreover have "height s' = nrows (array s') \<and> width s' = ncols (array s')"
    by (simp add: st(5) refresh_shape_def)
  ultimately show ?thesis using st by simp
qed

text \<open>
  C4. The trims do not refresh the width between them, so a trim that follows another
  does not see the already-trimmed shape. A 4 wide copy on x in [0, 4] is trimmed to a
  target on x in [2, 3]: the left trim leaves 2 columns, from column 2 on, moves
  \<open>xmin\<close> to 2 and leaves the width attribute at 4. From the trimmed shape, 2 columns,
  the right trim's index is -1 and one column is kept; the code computes
  \<open>int(4 * (3 - 4) / (4 - 2)) = -2\<close> from the stale 4 and the moved \<open>xmin\<close>, no
  column is left, and the call leaves the target at zero although the source covers it.
\<close>

theorem trim_uses_stale_width:
  "columns_of (trim_xmin narrow_target wide_copy) = Some (4, 2, 2) \<and>
   frac_index 2 (xmax narrow_target) (xmax wide_copy) (xmax wide_copy) (xmin narrow_target) =
     Inr (- 1) \<and>
   frac_index 4 (xmax narrow_target) (xmax wide_copy) (xmax wide_copy) (xmin narrow_target) =
     Inr (- 2) \<and>
   columns_of (ebind (trim_xmin narrow_target wide_copy) (trim_xmax narrow_target)) =
     Some (4, 2, 0) \<and>
   grid_of covered_target (array (images covered_target ! 0)) = [[7, 7, 7, 7]] \<and>
   returned (blit_onto 0 1 covered_target) = Some (Some 1) \<and>
   grid_after (blit_onto 0 1 covered_target) 1 = Some [[0]]"
  by (simp add: covered_target_def narrow_target_def wide_copy_def columns_of_def
        blit_onto_def blit_window_def np_copyto_def blit_eval
        returned_def grid_after_def grid_of_def upt_small)

subsection \<open>The scenario of the specification\<close>

text \<open>
  C5. With the 4 by 4 target of zeros on x, y in [0, 4], z in [0, 10] and the 2 by 2
  source filled with 1000 on x, y in [1, 3], z in [5, 15], \<^verbatim>\<open>blit_onto\<close> returns the
  target, whose rows and columns 1 and 2 hold 1500 and whose other cells are still 0.
\<close>

theorem scenario_composite:
  "returned (blit_onto 0 1 scenario) = Some (Some 1) \<and>
   grid_after (blit_onto 0 1 scenario) 1 =
     Some [[0, 0, 0, 0], [0, 1500, 1500, 0], [0, 1500, 1500, 0], [0, 0, 0, 0]]"
  unfolding blit_onto_def scenario_window
  by (simp add: np_copyto_def returned_def grid_after_def grid_of_def sample_def tile_def
        upt_small)

subsection \<open>The zero-scale guard\<close>

text \<open>
  C6. With a target that has no rows the row ratio is zero; the call leaves the store
  as it was, and the value it returns is \<^verbatim>\<open>None\<close>, not the target.
\<close>

theorem zero_scale_returns_none:
  "blit_onto 0 1 empty_target = Inr (None, empty_target)"
  by (simp add: empty_target_def blit_onto_def blit_window_def blit_eval)

subsection \<open>The z-scale\<close>

text \<open>
  C7. With the three bounds it reads set, the z-scale is
  \<open>(source.zmax - target.zmin) / (target.zmax - target.zmin)\<close>, and it is 1, with no
  error, when the denominator \<open>target.zmax - target.zmin\<close> is zero.
\<close>

theorem z_scale_fallback:
  assumes "zmax s = Some a" "zmin t = Some b" "zmax t = Some c"
  shows "z_scale s t = Inr (if c - b = 0 then 1 else (a - b) / (c - b))"
  using assms by (simp add: z_scale_def py_sub_def py_div_def)

theorem z_scale_fallback_witness:
  "z_scale (tile 0 2 2 1 3 1 3 5 15) (tile 1 4 4 0 4 0 4 0 10) = Inr (3 / 2) \<and>
   z_scale (tile 0 2 2 1 3 1 3 5 15) (tile 1 4 4 0 4 0 4 7 7) = Inr 1"
  using z_scale_fallback [of "tile 0 2 2 1 3 1 3 5 15" 15 "tile 1 4 4 0 4 0 4 0 10" 0 10]
    z_scale_fallback [of "tile 0 2 2 1 3 1 3 5 15" 15 "tile 1 4 4 0 4 0 4 7 7" 7 7]
  by (simp add: tile_def)

subsection \<open>The shape invariant\<close>

text \<open>
  C8. Every call of the public interface that completes (a constructor, \<^verbatim>\<open>copy\<close>, an
  export call or \<^verbatim>\<open>blit_onto\<close>) on tiles whose grid has \<open>height\<close> rows and
  \<open>width\<close> columns leaves every tile that existed before with that property, and the
  tile it returns has it too.
\<close>

theorem shape_invariant:
  assumes args: "list_all (\<lambda>q. q < length (images st) \<and> shape_ok (images st ! q)) (call_refs c)"
    and run: "perform c st = Inr (v, st')"
  shows "(\<forall>q. q < length (images st) \<and> shape_ok (images st ! q) \<longrightarrow> shape_ok (images st' ! q)) \<and>
         (\<forall>r. v = Some r \<longrightarrow> shape_ok (images st' ! r))"
proof (cases c)
  case (New w h)
  with run show ?thesis
    by (auto simp: ebind_eq_Inr Image_init_shape)
next
  case (From_region rg u)
  with run show ?thesis
    by (auto simp: ebind_eq_Inr from_region_shape)
next
  case (Copy self)
  with run args show ?thesis
    by (auto simp: ebind_eq_Inr copy_shape)
next
  case (Pixels cg self)
  with run show ?thesis
    by (auto simp: pixels_shape)
next
  case (Save cg self)
  with run show ?thesis
    by (auto simp: ebind_eq_Inr save_def Let_def pixels_shape split: if_splits)
next
  case (Blit_onto s t)
  with run args have s: "s < length (images st)" and t: "t < length (images st)"
    and ok: "shape_ok (images st ! t)" and b: "blit_onto s t st = Inr (v, st')"
    by simp_all
  have keep: "images st' ! q = images st ! q" if "q < length (images st)" for q
    using blit_onto_images [OF s t b that] .
  have "shape_ok (images st' ! r)" if "v = Some r" for r
    using that b blit_onto_returns [of s t st r st'] keep [OF t] ok by simp
  with keep show ?thesis by simp
qed

theorem shape_invariant_witness:
  "\<exists>st'. perform (Blit_onto 0 1) scenario = Inr (Some 1, st') \<and>
         shape_ok (images st' ! 0) \<and> shape_ok (images st' ! 1)"
proof -
  from scenario_runs obtain st' where run: "perform (Blit_onto 0 1) scenario = Inr (Some 1, st')"
    by auto
  have args: "list_all (\<lambda>q. q < length (images scenario) \<and> shape_ok (images scenario ! q))
                (call_refs (Blit_onto 0 1))"
    by (simp add: scenario_def tile_def shape_ok_def)
  have ok: "0 < length (images scenario) \<and> shape_ok (images scenario ! 0)"
    "1 < length (images scenario) \<and> shape_ok (images scenario ! 1)"
    by (simp_all add: scenario_def tile_def shape_ok_def)
  from shape_invariant [OF args run] ok run show ?thesis
    by blast
qed

subsection \<open>Copies and sharing\<close>

text \<open>
  C9. \<^verbatim>\<open>copy\<close> returns a new tile object with the attributes of the original and
  the very same array. Assigning any attribute of the copy leaves the original as it
  was; a write through the copy's array changes the grid of the original; and once the
  resampling step has assigned a new array to the copy, a write through the copy's array
  leaves the original and its buffer as they were.
\<close>

theorem copy_aliasing:
  assumes self: "self < length (images st)"
    and cp: "copy self st = Inr (c, st1)"
  shows "c = length (images st) \<and>
         images st1 ! c = images st ! self \<and>
         images st1 ! self = images st ! self \<and>
         (\<forall>f. images (set_image c f st1) ! self = images st ! self) \<and>
         (\<forall>src st3 j i.
            np_copyto (array (images st1 ! c)) src st1 = Inr st3 \<and>
            buf (array (images st ! self)) < length (buffers st) \<and>
            j < nrows (array (images st ! self)) \<and> i < ncols (array (images st ! self)) \<and>
            sample st1 (array (images st ! self)) j i < sample st1 src j i \<longrightarrow>
            sample st3 (array (images st3 ! self)) j i = sample st1 src j i) \<and>
         (\<forall>zs ps st2 src st3.
            resample c zs ps st1 = Inr st2 \<and>
            np_copyto (array (images st2 ! c)) src st2 = Inr st3 \<and>
            buf (array (images st ! self)) < length (buffers st) \<longrightarrow>
            images st3 ! self = images st ! self \<and>
            buffers st3 ! buf (array (images st ! self)) =
              buffers st ! buf (array (images st ! self)))"
proof -
  let ?A = "array (images st ! self)"
  from cp have c: "c = length (images st)"
    and st1: "st1 = st\<lparr>images := images st @ [images st ! self],
                        buffers := buffers st @ [\<lambda>r c. 0]\<rparr>"
    by (simp_all add: copy_eq [OF self])
  have new: "images st1 ! c = images st ! self"
    by (simp add: c st1)
  have old: "images st1 ! self = images st ! self"
    using self by (simp add: st1 nth_append)
  have neq: "c \<noteq> self" using self c by simp
  have attr: "images (set_image c f st1) ! self = images st ! self" for f
    using neq old by (simp add: set_image_def)
  have through: "sample st3 (array (images st3 ! self)) j i = sample st1 src j i"
    if w: "np_copyto (array (images st1 ! c)) src st1 = Inr st3"
      and sb: "buf ?A < length (buffers st)"
      and j: "j < nrows ?A" and i: "i < ncols ?A"
      and gt: "sample st1 ?A j i < sample st1 src j i"
    for src st3 j i
  proof -
    from w have shape: "nrows ?A = nrows src" "ncols ?A = ncols src"
      by (auto simp: new np_copyto_def split: if_splits)
    have len: "buf ?A < length (buffers st1)"
      using sb by (simp add: st1)
    from w have st3: "st3 = st1\<lparr>buffers := (buffers st1)[buf ?A :=
             (\<lambda>r c. if roff ?A \<le> r \<and> r < roff ?A + nrows ?A \<and>
                        coff ?A \<le> c \<and> c < coff ?A + ncols ?A \<and>
                        sample st1 ?A (r - roff ?A) (c - coff ?A)
                          < sample st1 src (r - roff ?A) (c - coff ?A)
                     then sample st1 src (r - roff ?A) (c - coff ?A)
                     else (buffers st1 ! buf ?A) r c)]\<rparr>"
      by (simp add: new np_copyto_eq shape)
    have "images st3 ! self = images st ! self"
      by (simp add: st3 old)
    then show ?thesis
      using len j i gt by (simp add: st3 sample_def)
  qed
  have detach: "images st3 ! self = images st ! self \<and>
                buffers st3 ! buf ?A = buffers st ! buf ?A"
    if rs: "resample c zs ps st1 = Inr st2"
      and w: "np_copyto (array (images st2 ! c)) src st2 = Inr st3"
      and sb: "buf ?A < length (buffers st)"
    for zs ps st2 src st3
  proof -
    from rs obtain m g where
      im2: "images st2 = (images st1)[c := m]"
      and bm: "buf (array m) = length (buffers st1)"
      and bf2: "buffers st2 = buffers st1 @ [g]"
      by (auto simp: resample_eq split: if_splits)
    have c2: "images st2 ! c = m"
      by (simp add: im2 c st1)
    from w have im3: "images st3 = images st2"
      and bf3: "\<And>b. b \<noteq> buf (array m) \<Longrightarrow> buffers st3 ! b = buffers st2 ! b"
      by (auto simp: np_copyto_def c2 split: if_splits)
    have "images st3 ! self = images st ! self"
      using neq old by (simp add: im3 im2)
    moreover have "buffers st3 ! buf ?A = buffers st ! buf ?A"
      using sb by (simp add: bf3 bm bf2 st1 nth_append)
    ultimately show ?thesis ..
  qed
  from c new old attr through detach show ?thesis
    by blast
qed

theorem copy_aliasing_witness:
  "\<exists>st1. copy 0 scenario = Inr (2, st1) \<and>
          images st1 ! 2 = tile 0 2 2 1 3 1 3 5 15 \<and>
          images st1 ! 0 = tile 0 2 2 1 3 1 3 5 15 \<and>
          images (set_image 2 (\<lambda>m. m\<lparr>xmin := Some 9\<rparr>) st1) ! 0 = tile 0 2 2 1 3 1 3 5 15"
proof -
  have v: "0 < length (images scenario)" by (simp add: scenario_def)
  have "\<exists>st1. copy 0 scenario = Inr (2, st1)"
    by (simp add: copy_eq [OF v]) (simp add: scenario_def)
  then obtain st1 where cp: "copy 0 scenario = Inr (2, st1)" ..
  from copy_aliasing [OF v cp] cp show ?thesis
    by (auto simp: scenario_def)
qed

text \<open>
  A source and a target that share one buffer (rows 5 and 0): the merge writes the
  reversed source into that buffer, and the source's grid is rows 5 and 5 afterwards.
\<close>

theorem shared_buffer_counterexample:
  "grid_of shared (array (images shared ! 0)) = [[5], [0]] \<and>
   grid_after (blit_onto 0 1 shared) 0 = Some [[5], [5]]"
  by (simp add: shared_def blit_onto_def blit_window_def np_copyto_def blit_eval
        grid_after_def grid_of_def upt_small)

text \<open>
  C10 (amended). When the source's array and the target's array lie in different
  buffers, \<^verbatim>\<open>blit_onto\<close> leaves the source tile as it was: its attributes and the
  contents of its grid are the same before and after the call.
\<close>

theorem blit_onto_source_unchanged:
  assumes src: "source < length (images st)" and tgt: "target < length (images st)"
    and sb: "buf (array (images st ! source)) < length (buffers st)"
    and apart: "buf (array (images st ! source)) \<noteq> buf (array (images st ! target))"
    and run: "blit_onto source target st = Inr (v, st')"
  shows "images st' ! source = images st ! source \<and>
         grid_of st' (array (images st' ! source)) = grid_of st (array (images st ! source))"
proof (cases v)
  case None
  with run have "st' = st" by (simp add: blit_onto_None)
  then show ?thesis by simp
next
  case (Some r)
  with run obtain sub a st4 where
    win: "blit_window source target st = Inr (Some (sub, a, st4))"
    and cp: "np_copyto sub a st4 = Inr st'"
    by (auto simp: blit_onto_Some)
  from blit_window_Some [OF src tgt win] obtain s4 g where
    im4: "images st4 = images st @ [s4]"
    and bf4: "buffers st4 = buffers st @ [\<lambda>r c. 0, g]"
    and bs: "buf sub = buf (array (images st ! target))"
    and shape: "nrows a = nrows sub" "ncols a = ncols sub"
    by metis
  from cp have im': "images st' = images st4"
    and bf': "\<And>b. b \<noteq> buf sub \<Longrightarrow> buffers st' ! b = buffers st4 ! b"
    by (auto simp: np_copyto_eq shape)
  have img: "images st' ! source = images st ! source"
    using src by (simp add: im' im4 nth_append)
  have "buffers st' ! buf (array (images st ! source)) =
          buffers st ! buf (array (images st ! source))"
    using apart sb by (simp add: bf' bs bf4 nth_append)
  then have "grid_of st' (array (images st ! source)) = grid_of st (array (images st ! source))"
    by (simp add: grid_of_def sample_def)
  with img show ?thesis by simp
qed

theorem blit_onto_source_unchanged_witness:
  "\<exists>st'. blit_onto 0 1 scenario = Inr (Some 1, st') \<and>
         images st' ! 0 = tile 0 2 2 1 3 1 3 5 15 \<and>
         grid_of st' (array (images st' ! 0)) = [[1000, 1000], [1000, 1000]]"
proof -
  from scenario_runs obtain st' where run: "blit_onto 0 1 scenario = Inr (Some 1, st')" ..
  have v: "0 < length (images scenario)" "1 < length (images scenario)"
    "buf (array (images scenario ! 0)) < length (buffers scenario)"
    "buf (array (images scenario ! 0)) \<noteq> buf (array (images scenario ! 1))"
    by (simp_all add: scenario_def tile_def)
  have g: "grid_of scenario (array (images scenario ! 0)) = [[1000, 1000], [1000, 1000]]"
    by (simp add: scenario_def tile_def grid_of_def sample_def upt_small)
  from blit_onto_source_unchanged [OF v run] g run show ?thesis
    by (auto simp: scenario_def)
qed

end
